theory Spec2Isabelle
  imports Complex_Main
begin

section \<open>Run-time values\<close>

text \<open>
  The client and the tool handlers are TypeScript; at run time every argument, request
  body and response body is a JavaScript value. A JavaScript number is a finite
  rational, one of the two infinities, or NaN.
\<close>

datatype number = Finite rat | PosInfinity | NegInfinity | NaN

datatype json =
    JUndefined
  | JNull
  | JBool bool
  | JNum number
  | JStr string
  | JArr "json list"
  | JObj "(string \<times> json) list"

text \<open>JavaScript truthiness, as used by \<^verbatim>\<open>||\<close>, \<^verbatim>\<open>?:\<close> and \<^verbatim>\<open>if\<close>.\<close>

fun truthy :: "json \<Rightarrow> bool" where
  "truthy JUndefined = False"
| "truthy JNull = False"
| "truthy (JBool b) = b"
| "truthy (JNum (Finite q)) = (q \<noteq> 0)"
| "truthy (JNum NaN) = False"
| "truthy (JNum _) = True"
| "truthy (JStr s) = (s \<noteq> [])"
| "truthy (JArr _) = True"
| "truthy (JObj _) = True"

text \<open>\<^verbatim>\<open>a || b\<close>.\<close>

definition js_or :: "json \<Rightarrow> json \<Rightarrow> json" where
  "js_or a b = (if truthy a then a else b)"

text \<open>
  Property read \<^verbatim>\<open>v.k\<close> for the keys the program reads (none of them is a built-in
  property of a string, an array or a number): the stored value on an object that has
  the key, \<^verbatim>\<open>undefined\<close> otherwise. On \<^verbatim>\<open>null\<close> and \<^verbatim>\<open>undefined\<close> JavaScript raises
  a TypeError instead; the callers below guard those two cases themselves.
\<close>

fun get :: "json \<Rightarrow> string \<Rightarrow> json" where
  "get (JObj kvs) k = (case map_of kvs k of Some v \<Rightarrow> v | None \<Rightarrow> JUndefined)"
| "get _ k = JUndefined"

text \<open>An optional field of an interface is present when it is not \<^verbatim>\<open>undefined\<close>.\<close>

definition present :: "json \<Rightarrow> bool" where
  "present v = (v \<noteq> JUndefined)"

section \<open>The HTTP transport\<close>

datatype http_method = GET | POST | PUT | DELETE

record request =
  req_method :: http_method
  req_baseURL :: string
  req_url :: string
  req_headers :: "(string \<times> string) list"
  req_data :: json

record http_response =
  resp_status :: nat
  resp_data :: json

record axios_error =
  ax_message :: string
  ax_response :: "http_response option"

text \<open>What the network does with one request: no response at all, or a status and a body.\<close>

datatype outcome = NetworkFailure string | Reply nat json

text \<open>
  The world outside the client: the requests sent so far, the backend and network (the
  outcome of the \<open>n\<close>-th request, which may depend on the request), and the system clock
  (the \<open>n\<close>-th reading of \<^verbatim>\<open>new Date().toISOString()\<close>).
\<close>

record world =
  sent :: "request list"
  wire :: "nat \<Rightarrow> request \<Rightarrow> outcome"
  clock :: "nat \<Rightarrow> string"
  ticks :: nat

definition new_Date_toISOString :: "world \<Rightarrow> string \<times> world" where
  "new_Date_toISOString w = (clock w (ticks w), w\<lparr>ticks := Suc (ticks w)\<rparr>)"

text \<open>Decimal notation of a status code, for the transport's message.\<close>

fun decimal :: "nat \<Rightarrow> string" where
  "decimal n =
     (if n < 10 then [''0123456789'' ! n]
      else decimal (n div 10) @ [''0123456789'' ! (n mod 10)])"

declare decimal.simps [simp del]

text \<open>
  axios with its default \<^verbatim>\<open>validateStatus\<close> (the client does not override it): a status
  in 200..299 resolves with the response, any other status rejects with an AxiosError that
  carries the response, and a network failure rejects with an AxiosError without response.
\<close>

definition settle :: "outcome \<Rightarrow> axios_error + http_response" where
  "settle out =
     (case out of
        NetworkFailure msg \<Rightarrow> Inl \<lparr>ax_message = msg, ax_response = None\<rparr>
      | Reply st body \<Rightarrow>
          if 200 \<le> st \<and> st < 300 then Inr \<lparr>resp_status = st, resp_data = body\<rparr>
          else Inl \<lparr>ax_message = ''Request failed with status code '' @ decimal st,
                    ax_response = Some \<lparr>resp_status = st, resp_data = body\<rparr>\<rparr>)"

section \<open>Types of the client (types.ts)\<close>

record BuildableConfig =
  apiUrl :: string
  apiKey :: string
  projectId :: string
  aiAssistantId :: "string option"
  timeout :: "nat option"

record APIError =
  api_error :: json
  api_code :: json
  api_details :: json
  api_timestamp :: string

record MCPResponse =
  success :: bool
  data :: json
  error :: "APIError option"
  timestamp :: string

record StartTaskOptions =
  sto_approach :: json
  sto_estimated_duration :: json
  sto_notes :: json

record ProgressUpdate =
  pu_progress :: json
  pu_status_update :: json
  pu_completed_steps :: json
  pu_current_step :: json
  pu_challenges :: json
  pu_time_spent :: json
  pu_files_modified :: json
  pu_notes :: json

record CompleteTaskRequest =
  ctr_completion_notes :: json
  ctr_files_modified :: json
  ctr_testing_completed :: json
  ctr_documentation_updated :: json
  ctr_time_spent :: json

record DiscussionContext =
  dc_current_task_id :: json
  dc_related_files :: json
  dc_specific_challenge :: json
  dc_urgency :: json

record CreateDiscussionRequest =
  cdr_topic :: json
  cdr_message :: json
  cdr_context :: "DiscussionContext option"

text \<open>Whatever a \<^verbatim>\<open>throw\<close> or a rejected promise carries.\<close>

datatype thrown =
    APIErrorThrown APIError
  | TypeError
  | Error string
  | InvalidParams string
  | ToolNotFound string

section \<open>BuildableMCPClient\<close>

record axios_instance =
  ax_baseURL :: string
  ax_timeout :: nat
  ax_headers :: "(string \<times> string) list"

record client =
  axios :: axios_instance
  config :: BuildableConfig
  assistantId :: string

text \<open>
  The constructor. \<open>uuid\<close> is the value of \<^verbatim>\<open>uuidv4()\<close>. The options object is stored and
  never read again, and \<^verbatim>\<open>log\<close> returns at once without output, so both are left out
  here and in every method below.
\<close>

definition BuildableMCPClient :: "BuildableConfig \<Rightarrow> string \<Rightarrow> client" where
  "BuildableMCPClient cfg uuid =
     (let aid = (case aiAssistantId cfg of
                   Some s \<Rightarrow> if s \<noteq> [] then s else ''ai_'' @ take 8 uuid
                 | None \<Rightarrow> ''ai_'' @ take 8 uuid)
      in \<lparr>axios = \<lparr>ax_baseURL = apiUrl cfg,
                   ax_timeout = (case timeout cfg of
                                   Some t \<Rightarrow> if t \<noteq> 0 then t else 30000
                                 | None \<Rightarrow> 30000),
                   ax_headers = [(''Authorization'', ''Bearer '' @ apiKey cfg),
                                 (''X-AI-Assistant-ID'', aid),
                                 (''Content-Type'', ''application/json''),
                                 (''User-Agent'', ''@bldbl/mcp/1.0.0'')]\<rparr>,
          config = cfg,
          assistantId = aid\<rparr>)"

definition createBuildableClient :: "BuildableConfig \<Rightarrow> string \<Rightarrow> client" where
  "createBuildableClient cfg uuid = BuildableMCPClient cfg uuid"

definition formatError :: "axios_error \<Rightarrow> world \<Rightarrow> APIError \<times> world" where
  "formatError err w =
     (case new_Date_toISOString w of (ts, w1) \<Rightarrow>
        (let apiError = \<lparr>api_error = js_or (JStr (ax_message err)) (JStr ''Unknown API error''),
                         api_code = JUndefined,
                         api_details = JUndefined,
                         api_timestamp = ts\<rparr>;
             responseData = (case ax_response err of
                               None \<Rightarrow> JUndefined
                             | Some resp \<Rightarrow> resp_data resp)
         in if truthy responseData
            then (apiError\<lparr>api_error := js_or (get responseData ''error'')
                                         (js_or (get responseData ''message'')
                                            (api_error apiError)),
                           api_code := get responseData ''code'',
                           api_details := get responseData ''details''\<rparr>, w1)
            else (apiError, w1)))"

text \<open>
  One request through the client's axios instance: the instance's base URL and headers,
  the call's method, path and body; then the response interceptor installed by the
  constructor, which passes a response on and rejects with \<open>formatError\<close> of an error.
\<close>

definition instance_request :: "client \<Rightarrow> http_method \<Rightarrow> string \<Rightarrow> json \<Rightarrow> request" where
  "instance_request c m u d =
     \<lparr>req_method = m, req_baseURL = ax_baseURL (axios c), req_url = u,
      req_headers = ax_headers (axios c), req_data = d\<rparr>"

definition axios_request ::
  "client \<Rightarrow> http_method \<Rightarrow> string \<Rightarrow> json \<Rightarrow> world \<Rightarrow> (thrown + http_response) \<times> world" where
  "axios_request c m u d w =
     (let r = instance_request c m u d;
          w1 = w\<lparr>sent := sent w @ [r]\<rparr>
      in case settle (wire w (length (sent w)) r) of
           Inr response \<Rightarrow> (Inr response, w1)
         | Inl err \<Rightarrow>
             (case formatError err w1 of (apiError, w2) \<Rightarrow> (Inl (APIErrorThrown apiError), w2)))"

text \<open>
  \<^verbatim>\<open>makeRequest\<close>. The two readings of \<^verbatim>\<open>Date.now()\<close> only feed the log message and are
  left out; the envelope's timestamp is a reading of the clock taken after the response.
\<close>

definition makeRequest ::
  "client \<Rightarrow> http_method \<Rightarrow> string \<Rightarrow> json \<Rightarrow> world \<Rightarrow> (thrown + MCPResponse) \<times> world" where
  "makeRequest c m u d w =
     (case axios_request c m u d w of
        (Inr response, w1) \<Rightarrow>
          (case new_Date_toISOString w1 of (ts, w2) \<Rightarrow>
             (Inr \<lparr>success = True, data = resp_data response, error = None, timestamp = ts\<rparr>, w2))
      | (Inl e, w1) \<Rightarrow> (Inl e, w1))"

definition updateConnectionStatus ::
  "client \<Rightarrow> string \<Rightarrow> json \<Rightarrow> world \<Rightarrow> (thrown + unit) \<times> world" where
  "updateConnectionStatus c status currentTaskId w =
     (case new_Date_toISOString w of (ts, w1) \<Rightarrow>
        (case axios_request c POST ''/internal/ai-connections''
                (JObj [(''ai_assistant_id'', JStr (assistantId c)),
                       (''status'', JStr status),
                       (''current_task_id'', currentTaskId),
                       (''metadata'',
                          JObj [(''client_version'', JStr ''1.0.0''),
                                (''capabilities'',
                                   JArr [JStr ''task_management'', JStr ''progress_tracking'',
                                         JStr ''discussions'']),
                                (''last_activity'', JStr ts)])]) w1 of
           (Inr _, w2) \<Rightarrow> (Inr (), w2)
         | (Inl _, w2) \<Rightarrow> (Inr (), w2)))"

definition getProjectContext :: "client \<Rightarrow> world \<Rightarrow> (thrown + json) \<times> world" where
  "getProjectContext c w =
     (case makeRequest c GET (''/projects/'' @ projectId (config c) @ ''/context'') JUndefined w of
        (Inr response, w1) \<Rightarrow> (Inr (data response), w1)
      | (Inl e, w1) \<Rightarrow> (Inl e, w1))"

text \<open>
  The test \<^verbatim>\<open>response.data?.task\<close> only chooses between two log messages; the method
  returns \<^verbatim>\<open>response.data\<close> on both branches.
\<close>

definition getNextTask :: "client \<Rightarrow> world \<Rightarrow> (thrown + json) \<times> world" where
  "getNextTask c w =
     (case makeRequest c GET (''/projects/'' @ projectId (config c) @ ''/next-task'') JUndefined w of
        (Inr response, w1) \<Rightarrow>
          (if truthy (get (data response) ''task'') then (Inr (data response), w1)
           else (Inr (data response), w1))
      | (Inl e, w1) \<Rightarrow> (Inl e, w1))"

definition startTask ::
  "client \<Rightarrow> string \<Rightarrow> StartTaskOptions \<Rightarrow> world \<Rightarrow> (thrown + json) \<times> world" where
  "startTask c taskId options w =
     (case makeRequest c POST (''/tasks/'' @ taskId @ ''/start'')
             (JObj [(''ai_assistant_id'', JStr (assistantId c)),
                    (''estimated_time_minutes'', sto_estimated_duration options),
                    (''notes'', sto_notes options),
                    (''approach'', sto_approach options)]) w of
        (Inr response, w1) \<Rightarrow>
          (case updateConnectionStatus c ''working'' (JStr taskId) w1 of
             (Inr _, w2) \<Rightarrow> (Inr (data response), w2)
           | (Inl e, w2) \<Rightarrow> (Inl e, w2))
      | (Inl e, w1) \<Rightarrow> (Inl e, w1))"

definition updateProgress ::
  "client \<Rightarrow> string \<Rightarrow> ProgressUpdate \<Rightarrow> world \<Rightarrow> (thrown + json) \<times> world" where
  "updateProgress c taskId p w =
     (case makeRequest c POST (''/tasks/'' @ taskId @ ''/progress'')
             (JObj [(''completion_percentage'', pu_progress p),
                    (''files_created'', pu_files_modified p),
                    (''files_modified'', pu_files_modified p),
                    (''notes'', pu_notes p),
                    (''blockers'', pu_challenges p),
                    (''time_spent_minutes'', pu_time_spent p),
                    (''current_step'', pu_current_step p),
                    (''completed_steps'', pu_completed_steps p)]) w of
        (Inr response, w1) \<Rightarrow>
          (case updateConnectionStatus c ''working'' (JStr taskId) w1 of
             (Inr _, w2) \<Rightarrow> (Inr (data response), w2)
           | (Inl e, w2) \<Rightarrow> (Inl e, w2))
      | (Inl e, w1) \<Rightarrow> (Inl e, w1))"

definition completeTask ::
  "client \<Rightarrow> string \<Rightarrow> CompleteTaskRequest \<Rightarrow> world \<Rightarrow> (thrown + json) \<times> world" where
  "completeTask c taskId completion w =
     (case makeRequest c POST (''/tasks/'' @ taskId @ ''/complete'')
             (JObj [(''files_created'', ctr_files_modified completion),
                    (''files_modified'', ctr_files_modified completion),
                    (''completion_notes'', ctr_completion_notes completion),
                    (''time_spent_minutes'', ctr_time_spent completion),
                    (''verification_evidence'',
                       if truthy (ctr_testing_completed completion) then JStr ''Tests passed''
                       else JUndefined)]) w of
        (Inr response, w1) \<Rightarrow>
          (case updateConnectionStatus c ''connected'' JUndefined w1 of
             (Inr _, w2) \<Rightarrow> (Inr (data response), w2)
           | (Inl e, w2) \<Rightarrow> (Inl e, w2))
      | (Inl e, w1) \<Rightarrow> (Inl e, w1))"

text \<open>\<^verbatim>\<open>discussion.context?.f\<close>.\<close>

definition context_field ::
  "CreateDiscussionRequest \<Rightarrow> (DiscussionContext \<Rightarrow> json) \<Rightarrow> json" where
  "context_field discussion f = (case cdr_context discussion of None \<Rightarrow> JUndefined | Some x \<Rightarrow> f x)"

definition createDiscussion ::
  "client \<Rightarrow> CreateDiscussionRequest \<Rightarrow> world \<Rightarrow> (thrown + json) \<times> world" where
  "createDiscussion c discussion w =
     (case makeRequest c POST (''/projects/'' @ projectId (config c) @ ''/discuss'')
             (JObj [(''type'', JStr ''question''),
                    (''title'', cdr_topic discussion),
                    (''message'', cdr_message discussion),
                    (''context'',
                       JObj [(''task_id'', context_field discussion dc_current_task_id),
                             (''relevant_files'', context_field discussion dc_related_files),
                             (''specific_challenge'', context_field discussion dc_specific_challenge),
                             (''urgency'',
                                js_or (context_field discussion dc_urgency) (JStr ''medium''))]),
                    (''urgency'', js_or (context_field discussion dc_urgency) (JStr ''medium'')),
                    (''requires_human_response'', JBool True),
                    (''created_by'', JStr (assistantId c))]) w of
        (Inr response, w1) \<Rightarrow> (Inr (data response), w1)
      | (Inl e, w1) \<Rightarrow> (Inl e, w1))"

definition healthCheck :: "client \<Rightarrow> world \<Rightarrow> (thrown + json) \<times> world" where
  "healthCheck c w =
     (case makeRequest c GET ''/health'' JUndefined w of
        (Inr response, w1) \<Rightarrow> (Inr (data response), w1)
      | (Inl e, w1) \<Rightarrow> (Inl e, w1))"

definition connect :: "client \<Rightarrow> world \<Rightarrow> (thrown + unit) \<times> world" where
  "connect c w =
     (case updateConnectionStatus c ''connected'' JUndefined w of
        (Inr _, w1) \<Rightarrow> (Inr (), w1)
      | (Inl _, w1) \<Rightarrow> (Inr (), w1))"

definition disconnect :: "client \<Rightarrow> world \<Rightarrow> (thrown + unit) \<times> world" where
  "disconnect c w =
     (case updateConnectionStatus c ''disconnected'' JUndefined w of
        (Inr _, w1) \<Rightarrow> (Inr (), w1)
      | (Inl _, w1) \<Rightarrow> (Inr (), w1))"

text \<open>
  \<^verbatim>\<open>connections.find(conn => conn.ai_assistant_id === id)\<close>: reading a property of a
  \<^verbatim>\<open>null\<close> or \<^verbatim>\<open>undefined\<close> element raises a TypeError.
\<close>

fun find_connection :: "string \<Rightarrow> json list \<Rightarrow> thrown + json" where
  "find_connection aid [] = Inr JUndefined"
| "find_connection aid (conn # conns) =
     (if conn = JUndefined \<or> conn = JNull then Inl TypeError
      else if get conn ''ai_assistant_id'' = JStr aid then Inr conn
      else find_connection aid conns)"

definition getConnectionStatus :: "client \<Rightarrow> world \<Rightarrow> (thrown + json) \<times> world" where
  "getConnectionStatus c w =
     (let unknown = JObj [(''status'', JStr ''unknown''), (''connected_at'', JStr []),
                          (''last_activity_at'', JStr [])]
      in case axios_request c GET (''/projects/'' @ projectId (config c) @ ''/ai-connections'')
                JUndefined w of
           (Inr response, w1) \<Rightarrow>
             (if resp_data response = JUndefined \<or> resp_data response = JNull
              then (Inr unknown, w1)
              else (case js_or (get (resp_data response) ''connections'') (JArr []) of
                      JArr connections \<Rightarrow>
                        (case find_connection (assistantId c) connections of
                           Inr myConnection \<Rightarrow>
                             (Inr (js_or myConnection
                                     (JObj [(''status'', JStr ''disconnected''),
                                            (''connected_at'', JStr []),
                                            (''last_activity_at'', JStr [])])), w1)
                         | Inl _ \<Rightarrow> (Inr unknown, w1))
                    | _ \<Rightarrow> (Inr unknown, w1)))
         | (Inl _, w1) \<Rightarrow> (Inr unknown, w1))"

section \<open>A caller of the client\<close>

text \<open>
  The public methods of the class, as one datatype, so that a statement can range over
  every method and over every sequence of calls made on one client instance.
\<close>

datatype operation =
    GetProjectContext
  | GetNextTask
  | StartTask string StartTaskOptions
  | UpdateProgress string ProgressUpdate
  | CompleteTask string CompleteTaskRequest
  | CreateDiscussion CreateDiscussionRequest
  | HealthCheck
  | Connect
  | Disconnect
  | GetConnectionStatus

definition returning_void :: "(thrown + unit) \<times> world \<Rightarrow> (thrown + json) \<times> world" where
  "returning_void rw = (case rw of (Inr _, w) \<Rightarrow> (Inr JUndefined, w) | (Inl e, w) \<Rightarrow> (Inl e, w))"

fun perform :: "client \<Rightarrow> operation \<Rightarrow> world \<Rightarrow> (thrown + json) \<times> world" where
  "perform c GetProjectContext w = getProjectContext c w"
| "perform c GetNextTask w = getNextTask c w"
| "perform c (StartTask taskId options) w = startTask c taskId options w"
| "perform c (UpdateProgress taskId p) w = updateProgress c taskId p w"
| "perform c (CompleteTask taskId completion) w = completeTask c taskId completion w"
| "perform c (CreateDiscussion discussion) w = createDiscussion c discussion w"
| "perform c HealthCheck w = healthCheck c w"
| "perform c Connect w = returning_void (connect c w)"
| "perform c Disconnect w = returning_void (disconnect c w)"
| "perform c GetConnectionStatus w = getConnectionStatus c w"

text \<open>
  The primary operations: the seven methods that go through \<open>makeRequest\<close> and re-raise
  what it raises.
\<close>

fun primary :: "operation \<Rightarrow> bool" where
  "primary Connect = False"
| "primary Disconnect = False"
| "primary GetConnectionStatus = False"
| "primary _ = True"

text \<open>A lifetime of a client: any calls, one after the other, whatever each returns.\<close>

fun lifetime :: "client \<Rightarrow> operation list \<Rightarrow> world \<Rightarrow> world" where
  "lifetime c [] w = w"
| "lifetime c (op # ops) w = lifetime c ops (snd (perform c op w))"

text \<open>The requests issued between an earlier world and a later one.\<close>

definition issued :: "world \<Rightarrow> world \<Rightarrow> request list" where
  "issued w w' = drop (length (sent w)) (sent w')"

text \<open>The outcome the first of these requests met.\<close>

definition first_outcome :: "world \<Rightarrow> world \<Rightarrow> outcome" where
  "first_outcome w w' = wire w (length (sent w)) (sent w' ! length (sent w))"

section \<open>The tool registry (cli.ts)\<close>

text \<open>The part of zod the tool schemas use.\<close>

datatype zod =
    ZString
  | ZNumber "rat option" "rat option"
  | ZBoolean
  | ZArray zod
  | ZEnum "string list"
  | ZOptional zod

text \<open>\<^verbatim>\<open>n < q\<close> and \<^verbatim>\<open>n > q\<close> on JavaScript numbers; every comparison with NaN is false.\<close>

fun num_less :: "number \<Rightarrow> rat \<Rightarrow> bool" where
  "num_less (Finite p) q = (p < q)"
| "num_less NegInfinity q = True"
| "num_less PosInfinity q = False"
| "num_less NaN q = False"

fun num_greater :: "number \<Rightarrow> rat \<Rightarrow> bool" where
  "num_greater (Finite p) q = (p > q)"
| "num_greater PosInfinity q = True"
| "num_greater NegInfinity q = False"
| "num_greater NaN q = False"

text \<open>
  Whether a schema parses a value without issue: \<^verbatim>\<open>z.string()\<close>, \<^verbatim>\<open>z.number()\<close> (which
  refuses NaN) with its inclusive \<^verbatim>\<open>.min\<close> and \<^verbatim>\<open>.max\<close>, \<^verbatim>\<open>z.boolean()\<close>,
  \<^verbatim>\<open>z.array\<close>, \<^verbatim>\<open>z.enum\<close> and \<^verbatim>\<open>.optional()\<close>.
\<close>

fun zod_accepts :: "zod \<Rightarrow> json \<Rightarrow> bool" where
  "zod_accepts ZString v = (case v of JStr _ \<Rightarrow> True | _ \<Rightarrow> False)"
| "zod_accepts (ZNumber lo hi) v =
     (case v of
        JNum n \<Rightarrow>
          n \<noteq> NaN
          \<and> (case lo of None \<Rightarrow> True | Some l \<Rightarrow> \<not> num_less n l)
          \<and> (case hi of None \<Rightarrow> True | Some h \<Rightarrow> \<not> num_greater n h)
      | _ \<Rightarrow> False)"
| "zod_accepts ZBoolean v = (case v of JBool _ \<Rightarrow> True | _ \<Rightarrow> False)"
| "zod_accepts (ZArray z) v = (case v of JArr xs \<Rightarrow> list_all (zod_accepts z) xs | _ \<Rightarrow> False)"
| "zod_accepts (ZEnum vs) v = (case v of JStr s \<Rightarrow> List.member vs s | _ \<Rightarrow> False)"
| "zod_accepts (ZOptional z) v = (v = JUndefined \<or> zod_accepts z v)"

text \<open>
  A tool's schema is a raw shape, parsed as \<^verbatim>\<open>z.object(shape)\<close>: the arguments are an
  object and every declared key's value (\<^verbatim>\<open>undefined\<close> when the key is missing) is
  accepted by the key's schema.
\<close>

type_synonym shape = "(string \<times> zod) list"

definition shape_accepts :: "shape \<Rightarrow> json \<Rightarrow> bool" where
  "shape_accepts sh args =
     (case args of
        JObj _ \<Rightarrow> list_all (\<lambda>(k, z). zod_accepts z (get args k)) sh
      | _ \<Rightarrow> False)"

record server =
  srv_client :: "client option"

text \<open>
  A handler's result \<^verbatim>\<open>{content: [{type: 'text', text: JSON.stringify(result, null, 2)}]}\<close>,
  kept as the value that is printed.
\<close>

datatype tool_result = TextContent json

type_synonym handler = "server \<Rightarrow> json \<Rightarrow> world \<Rightarrow> (thrown + tool_result) \<times> world"

definition as_text :: "(thrown + json) \<times> world \<Rightarrow> (thrown + tool_result) \<times> world" where
  "as_text rw = (case rw of (Inr result, w) \<Rightarrow> (Inr (TextContent result), w) | (Inl e, w) \<Rightarrow> (Inl e, w))"

text \<open>
  The string held by an argument that \<^verbatim>\<open>z.string()\<close> has accepted. A handler runs only on
  arguments its schema accepted, so the second equation is never reached from \<open>call_tool\<close>.
\<close>

fun the_string :: "json \<Rightarrow> string" where
  "the_string (JStr s) = s"
| "the_string _ = []"

definition not_connected :: thrown where
  "not_connected = Error ''Not connected to Buildable API''"

definition get_project_context_schema :: shape where
  "get_project_context_schema = []"

definition get_project_context_handler :: handler where
  "get_project_context_handler srv args w =
     (case srv_client srv of
        None \<Rightarrow> (Inl not_connected, w)
      | Some c \<Rightarrow> as_text (getProjectContext c w))"

definition get_next_task_schema :: shape where
  "get_next_task_schema = []"

definition get_next_task_handler :: handler where
  "get_next_task_handler srv args w =
     (case srv_client srv of
        None \<Rightarrow> (Inl not_connected, w)
      | Some c \<Rightarrow> as_text (getNextTask c w))"

definition start_task_schema :: shape where
  "start_task_schema =
     [(''task_id'', ZString),
      (''approach'', ZOptional ZString),
      (''estimated_duration'', ZOptional (ZNumber None None)),
      (''notes'', ZOptional ZString)]"

definition start_task_handler :: handler where
  "start_task_handler srv args w =
     (case srv_client srv of
        None \<Rightarrow> (Inl not_connected, w)
      | Some c \<Rightarrow>
          as_text (startTask c (the_string (get args ''task_id''))
                     \<lparr>sto_approach = get args ''approach'',
                      sto_estimated_duration = get args ''estimated_duration'',
                      sto_notes = get args ''notes''\<rparr> w))"

definition update_progress_schema :: shape where
  "update_progress_schema =
     [(''task_id'', ZString),
      (''progress'', ZNumber (Some 0) (Some 100)),
      (''status_update'', ZString),
      (''completed_steps'', ZOptional (ZArray ZString)),
      (''current_step'', ZOptional ZString),
      (''challenges'', ZOptional (ZArray ZString)),
      (''files_modified'', ZOptional (ZArray ZString)),
      (''time_spent'', ZOptional (ZNumber None None)),
      (''notes'', ZOptional ZString)]"

definition update_progress_handler :: handler where
  "update_progress_handler srv args w =
     (case srv_client srv of
        None \<Rightarrow> (Inl not_connected, w)
      | Some c \<Rightarrow>
          as_text (updateProgress c (the_string (get args ''task_id''))
                     \<lparr>pu_progress = get args ''progress'',
                      pu_status_update = get args ''status_update'',
                      pu_completed_steps = get args ''completed_steps'',
                      pu_current_step = get args ''current_step'',
                      pu_challenges = get args ''challenges'',
                      pu_time_spent = get args ''time_spent'',
                      pu_files_modified = get args ''files_modified'',
                      pu_notes = get args ''notes''\<rparr> w))"

definition complete_task_schema :: shape where
  "complete_task_schema =
     [(''task_id'', ZString),
      (''completion_notes'', ZString),
      (''files_modified'', ZOptional (ZArray ZString)),
      (''testing_completed'', ZOptional ZBoolean),
      (''documentation_updated'', ZOptional ZBoolean),
      (''time_spent'', ZOptional (ZNumber None None))]"

definition complete_task_handler :: handler where
  "complete_task_handler srv args w =
     (case srv_client srv of
        None \<Rightarrow> (Inl not_connected, w)
      | Some c \<Rightarrow>
          as_text (completeTask c (the_string (get args ''task_id''))
                     \<lparr>ctr_completion_notes = get args ''completion_notes'',
                      ctr_files_modified = js_or (get args ''files_modified'') (JArr []),
                      ctr_testing_completed = js_or (get args ''testing_completed'') (JBool False),
                      ctr_documentation_updated =
                        js_or (get args ''documentation_updated'') (JBool False),
                      ctr_time_spent = js_or (get args ''time_spent'') (JNum (Finite 0))\<rparr> w))"

definition create_discussion_schema :: shape where
  "create_discussion_schema =
     [(''title'', ZString),
      (''content'', ZString),
      (''urgency'', ZOptional (ZEnum [''low'', ''medium'', ''high''])),
      (''tags'', ZOptional (ZArray ZString))]"

definition create_discussion_handler :: handler where
  "create_discussion_handler srv args w =
     (case srv_client srv of
        None \<Rightarrow> (Inl not_connected, w)
      | Some c \<Rightarrow>
          as_text (createDiscussion c
                     \<lparr>cdr_topic = get args ''title'',
                      cdr_message = get args ''content'',
                      cdr_context = Some \<lparr>dc_current_task_id = JUndefined,
                                          dc_related_files = JUndefined,
                                          dc_specific_challenge = JUndefined,
                                          dc_urgency = get args ''urgency''\<rparr>\<rparr> w))"

definition health_check_schema :: shape where
  "health_check_schema = []"

definition health_check_handler :: handler where
  "health_check_handler srv args w =
     (case srv_client srv of
        None \<Rightarrow> (Inl not_connected, w)
      | Some c \<Rightarrow> as_text (healthCheck c w))"

text \<open>The registrations made by \<^verbatim>\<open>setupTools\<close>, in its order.\<close>

definition setupTools :: "(string \<times> shape \<times> handler) list" where
  "setupTools =
     [(''get_project_context'', get_project_context_schema, get_project_context_handler),
      (''get_next_task'', get_next_task_schema, get_next_task_handler),
      (''start_task'', start_task_schema, start_task_handler),
      (''update_progress'', update_progress_schema, update_progress_handler),
      (''complete_task'', complete_task_schema, complete_task_handler),
      (''create_discussion'', create_discussion_schema, create_discussion_handler),
      (''health_check'', health_check_schema, health_check_handler)]"

text \<open>
  A tool invocation as \<^verbatim>\<open>McpServer\<close> serves it. \<^verbatim>\<open>McpServer\<close> and zod are libraries the
  program depends on, not code of the program; both are modelled from their documented
  contract: the tool is looked up by name, the arguments are parsed with the schema given
  at registration, a failed parse is answered with an invalid-parameters error, and only
  accepted arguments reach the handler.
\<close>

definition call_tool ::
  "server \<Rightarrow> string \<Rightarrow> json \<Rightarrow> world \<Rightarrow> (thrown + tool_result) \<times> world" where
  "call_tool srv name args w =
     (case map_of setupTools name of
        None \<Rightarrow> (Inl (ToolNotFound name), w)
      | Some (sh, h) \<Rightarrow>
          if shape_accepts sh args then h srv args w
          else (Inl (InvalidParams name), w))"

section \<open>Notions used by the statements\<close>

text \<open>The request \<open>updateConnectionStatus\<close> posts when the clock reads \<open>ts\<close>.\<close>

definition heartbeat :: "client \<Rightarrow> string \<Rightarrow> json \<Rightarrow> string \<Rightarrow> request" where
  "heartbeat c status currentTaskId ts = instance_request c POST ''/internal/ai-connections''
                (JObj [(''ai_assistant_id'', JStr (assistantId c)),
                       (''status'', JStr status),
                       (''current_task_id'', currentTaskId),
                       (''metadata'',
                          JObj [(''client_version'', JStr ''1.0.0''),
                                (''capabilities'',
                                   JArr [JStr ''task_management'', JStr ''progress_tracking'',
                                         JStr ''discussions'']),
                                (''last_activity'', JStr ts)])])"

text \<open>The two shapes the seven primary methods have: the request alone, or the request
  followed by a connection-status report.\<close>

abbreviation plain_call ::
  "client \<Rightarrow> http_method \<Rightarrow> string \<Rightarrow> json \<Rightarrow> world \<Rightarrow> (thrown + json) \<times> world" where
  "plain_call c m u d w \<equiv>
     (case makeRequest c m u d w of
        (Inr response, w1) \<Rightarrow> (Inr (data response), w1)
      | (Inl e, w1) \<Rightarrow> (Inl e, w1))"

abbreviation reporting_call ::
  "client \<Rightarrow> http_method \<Rightarrow> string \<Rightarrow> json \<Rightarrow> string \<Rightarrow> json \<Rightarrow> world \<Rightarrow> (thrown + json) \<times> world" where
  "reporting_call c m u d s t w \<equiv>
     (case makeRequest c m u d w of
        (Inr response, w1) \<Rightarrow>
          (case updateConnectionStatus c s t w1 of
             (Inr _, w2) \<Rightarrow> (Inr (data response), w2)
           | (Inl e, w2) \<Rightarrow> (Inl e, w2))
      | (Inl e, w1) \<Rightarrow> (Inl e, w1))"

abbreviation (input) normalized :: "axios_error \<Rightarrow> json" where
  "normalized err \<equiv>
     (let body = (case ax_response err of None \<Rightarrow> JUndefined | Some r \<Rightarrow> resp_data r);
          fallback = JStr (if ax_message err = [] then ''Unknown API error'' else ax_message err)
      in if truthy body \<and> truthy (get body ''error'') then get body ''error''
         else if truthy body \<and> truthy (get body ''message'') then get body ''message''
         else fallback)"


text \<open>
  The \<^verbatim>\<open>error\<close> field of the raised APIError as the specification words it: the body's
  \<^verbatim>\<open>error\<close> field if present, otherwise the body's \<^verbatim>\<open>message\<close> field if present,
  otherwise the transport's own message.
\<close>

definition claimed_error :: "axios_error \<Rightarrow> json" where
  "claimed_error err =
     (let body = (case ax_response err of None \<Rightarrow> JUndefined | Some r \<Rightarrow> resp_data r)
      in if present (get body ''error'') then get body ''error''
         else if present (get body ''message'') then get body ''message''
         else JStr (ax_message err))"


subsection \<open>Concrete inputs\<close>

definition example_config :: BuildableConfig where
  "example_config =
     \<lparr>apiUrl = ''https://bldbl.dev/api'', apiKey = ''k'', projectId = ''p'',
      aiAssistantId = None, timeout = None\<rparr>"

definition example_client :: client where
  "example_client = BuildableMCPClient example_config ''0f8fad5b-d9cb-469f-a165-70867728950e''"

definition example_server :: server where
  "example_server = \<lparr>srv_client = Some example_client\<rparr>"

text \<open>A world that has seen no request yet and answers the \<open>n\<close>-th one with \<open>outs ! n\<close>,
  and every later one with \<open>out\<close>.\<close>

definition scripted :: "outcome list \<Rightarrow> outcome \<Rightarrow> world" where
  "scripted outs out =
     \<lparr>sent = [],
      wire = (\<lambda>n r. if n < length outs then outs ! n else out),
      clock = (\<lambda>n. ''2025-01-01T00:00:00.000Z''),
      ticks = 0\<rparr>"

definition replying :: "outcome \<Rightarrow> world" where
  "replying out = scripted [] out"

section \<open>Verification\<close>

subsection \<open>What one request does to the world\<close>

lemma sent_new_Date [simp]: "sent (snd (new_Date_toISOString w)) = sent w"
  and wire_new_Date [simp]: "wire (snd (new_Date_toISOString w)) = wire w"
  by (simp_all add: new_Date_toISOString_def)

lemma sent_formatError [simp]: "sent (snd (formatError err w)) = sent w"
  and wire_formatError [simp]: "wire (snd (formatError err w)) = wire w"
  by (simp_all add: formatError_def new_Date_toISOString_def Let_def split: prod.splits)

lemma axios_request_Inr:
  "settle (wire w (length (sent w)) (instance_request c m u d)) = Inr response \<Longrightarrow>
   axios_request c m u d w = (Inr response, w\<lparr>sent := sent w @ [instance_request c m u d]\<rparr>)"
  by (simp add: axios_request_def Let_def)

lemma axios_request_Inl:
  "settle (wire w (length (sent w)) (instance_request c m u d)) = Inl err \<Longrightarrow>
   axios_request c m u d w =
     (Inl (APIErrorThrown (fst (formatError err (w\<lparr>sent := sent w @ [instance_request c m u d]\<rparr>)))),
      snd (formatError err (w\<lparr>sent := sent w @ [instance_request c m u d]\<rparr>)))"
  by (simp add: axios_request_def Let_def split: prod.splits)

lemma sent_axios_request [simp]:
  "sent (snd (axios_request c m u d w)) = sent w @ [instance_request c m u d]"
  by (cases "settle (wire w (length (sent w)) (instance_request c m u d))")
     (simp_all add: axios_request_Inl axios_request_Inr)

lemma makeRequest_Inr:
  "settle (wire w (length (sent w)) (instance_request c m u d)) = Inr response \<Longrightarrow>
   makeRequest c m u d w =
     (Inr \<lparr>success = True, data = resp_data response, error = None,
           timestamp = clock w (ticks w)\<rparr>,
      w\<lparr>sent := sent w @ [instance_request c m u d], ticks := Suc (ticks w)\<rparr>)"
  by (simp add: makeRequest_def axios_request_Inr new_Date_toISOString_def)

lemma makeRequest_Inl:
  "settle (wire w (length (sent w)) (instance_request c m u d)) = Inl err \<Longrightarrow>
   makeRequest c m u d w =
     (Inl (APIErrorThrown (fst (formatError err (w\<lparr>sent := sent w @ [instance_request c m u d]\<rparr>)))),
      snd (formatError err (w\<lparr>sent := sent w @ [instance_request c m u d]\<rparr>)))"
  by (simp add: makeRequest_def axios_request_Inl)

lemma sent_makeRequest [simp]:
  "sent (snd (makeRequest c m u d w)) = sent w @ [instance_request c m u d]"
  by (cases "settle (wire w (length (sent w)) (instance_request c m u d))")
     (simp_all add: makeRequest_Inl makeRequest_Inr)

lemma settle_Reply_2xx:
  "200 \<le> st \<Longrightarrow> st < 300 \<Longrightarrow>
   settle (Reply st body) = Inr \<lparr>resp_status = st, resp_data = body\<rparr>"
  by (simp add: settle_def)

subsection \<open>The connection-status report\<close>

lemma updateConnectionStatus_returns: "fst (updateConnectionStatus c s t w) = Inr ()"
  by (simp add: updateConnectionStatus_def split: prod.splits sum.splits)

lemma updateConnectionStatus_eq:
  "updateConnectionStatus c s t w =
     (Inr (), snd (axios_request c POST ''/internal/ai-connections''
                     (req_data (heartbeat c s t (clock w (ticks w))))
                     (w\<lparr>ticks := Suc (ticks w)\<rparr>)))"
  by (simp add: updateConnectionStatus_def new_Date_toISOString_def heartbeat_def
        instance_request_def case_prod_beta)

lemma sent_updateConnectionStatus [simp]:
  "sent (snd (updateConnectionStatus c s t w)) = sent w @ [heartbeat c s t (clock w (ticks w))]"
  by (simp add: updateConnectionStatus_eq) (simp add: heartbeat_def instance_request_def)

lemma then_heartbeat:
  "(case updateConnectionStatus c s t w1 of
      (Inr _, w2) \<Rightarrow> (Inr v, w2)
    | (Inl e, w2) \<Rightarrow> (Inl e, w2)) = (Inr v, snd (updateConnectionStatus c s t w1))"
  using updateConnectionStatus_returns [of c s t w1]
  by (cases "updateConnectionStatus c s t w1") auto

lemma sent_disconnect:
  "sent (snd (disconnect c w)) =
   sent w @ [heartbeat c ''disconnected'' JUndefined (clock w (ticks w))]"
  by (simp add: disconnect_def case_prod_beta)

lemma snd_as_text: "snd (as_text rw) = snd rw"
  by (simp add: as_text_def split: prod.splits sum.splits)

lemma snd_returning_void: "snd (returning_void rw) = snd rw"
  by (simp add: returning_void_def split: prod.splits sum.splits)

subsection \<open>The two shapes of a primary method\<close>

lemma plain_call_Inr:
  assumes "settle (wire w (length (sent w)) (instance_request c m u d)) = Inr response"
  shows "plain_call c m u d w =
     (Inr (resp_data response),
      w\<lparr>sent := sent w @ [instance_request c m u d], ticks := Suc (ticks w)\<rparr>)"
  by (simp add: makeRequest_Inr [OF assms])

lemma plain_call_Inl:
  assumes "settle (wire w (length (sent w)) (instance_request c m u d)) = Inl err"
  shows "plain_call c m u d w =
     (Inl (APIErrorThrown (fst (formatError err (w\<lparr>sent := sent w @ [instance_request c m u d]\<rparr>)))),
      snd (formatError err (w\<lparr>sent := sent w @ [instance_request c m u d]\<rparr>)))"
  by (simp add: makeRequest_Inl [OF assms])

lemma reporting_call_Inr:
  assumes "settle (wire w (length (sent w)) (instance_request c m u d)) = Inr response"
  shows "reporting_call c m u d s t w =
     (Inr (resp_data response),
      snd (updateConnectionStatus c s t
             (w\<lparr>sent := sent w @ [instance_request c m u d], ticks := Suc (ticks w)\<rparr>)))"
  by (simp add: makeRequest_Inr [OF assms] then_heartbeat)

lemma reporting_call_Inl:
  assumes "settle (wire w (length (sent w)) (instance_request c m u d)) = Inl err"
  shows "reporting_call c m u d s t w =
     (Inl (APIErrorThrown (fst (formatError err (w\<lparr>sent := sent w @ [instance_request c m u d]\<rparr>)))),
      snd (formatError err (w\<lparr>sent := sent w @ [instance_request c m u d]\<rparr>)))"
  by (simp add: makeRequest_Inl [OF assms])

lemma first_outcome_append:
  "sent w' = sent w @ r # rest \<Longrightarrow> first_outcome w w' = wire w (length (sent w)) r"
  by (simp add: first_outcome_def)

lemma plain_call_first:
  "first_outcome w (snd (plain_call c m u d w)) =
   wire w (length (sent w)) (instance_request c m u d)"
  by (cases "settle (wire w (length (sent w)) (instance_request c m u d))")
     (simp_all add: plain_call_Inl plain_call_Inr first_outcome_append)

lemma reporting_call_first:
  "first_outcome w (snd (reporting_call c m u d s t w)) =
   wire w (length (sent w)) (instance_request c m u d)"
  by (cases "settle (wire w (length (sent w)) (instance_request c m u d))")
     (simp_all add: reporting_call_Inl reporting_call_Inr first_outcome_append)

lemma sent_plain_call:
  "sent (snd (plain_call c m u d w)) = sent w @ [instance_request c m u d]"
  by (cases "settle (wire w (length (sent w)) (instance_request c m u d))")
     (simp_all add: plain_call_Inl plain_call_Inr)

lemma sent_reporting_call:
  "\<exists>rest. sent (snd (reporting_call c m u d s t w)) = sent w @ instance_request c m u d # rest
      \<and> (\<forall>r\<in>set rest. req_headers r = ax_headers (axios c))"
  by (cases "settle (wire w (length (sent w)) (instance_request c m u d))")
     (simp_all add: reporting_call_Inl reporting_call_Inr, simp add: heartbeat_def instance_request_def)

subsection \<open>The concrete worlds\<close>

lemma decimal_401: "decimal 401 = ''401''" and decimal_400: "decimal 400 = ''400''"
  by (simp_all add: decimal.simps)

lemma wire_replying [simp]: "wire (replying out) n r = out"
  and sent_replying [simp]: "sent (replying out) = []"
  and clock_replying [simp]: "clock (replying out) n = ''2025-01-01T00:00:00.000Z''"
  and ticks_replying [simp]: "ticks (replying out) = 0"
  by (simp_all add: replying_def scripted_def)

lemma first_outcome_replying [simp]: "first_outcome (replying out) w' = out"
  by (simp add: first_outcome_def)

lemma wire_scripted:
  "wire (scripted outs out) n r = (if n < length outs then outs ! n else out)"
  and sent_scripted [simp]: "sent (scripted outs out) = []"
  and clock_scripted [simp]: "clock (scripted outs out) n = ''2025-01-01T00:00:00.000Z''"
  and ticks_scripted [simp]: "ticks (scripted outs out) = 0"
  by (simp_all add: scripted_def)

subsection \<open>Error normalisation\<close>

lemma api_error_formatError: "api_error (fst (formatError err w)) = normalized err"
  by (simp add: formatError_def js_or_def Let_def new_Date_toISOString_def split: option.splits)

lemma plain_call_raises:
  assumes "settle (first_outcome w (snd (plain_call c m u d w))) = Inl err"
  shows "\<exists>e. fst (plain_call c m u d w) = Inl (APIErrorThrown e) \<and> api_error e = normalized err"
proof -
  from assms have bad: "settle (wire w (length (sent w)) (instance_request c m u d)) = Inl err"
    unfolding plain_call_first .
  show ?thesis
    unfolding plain_call_Inl [OF bad] fst_conv using api_error_formatError by blast
qed

lemma reporting_call_raises:
  assumes "settle (first_outcome w (snd (reporting_call c m u d s t w))) = Inl err"
  shows "\<exists>e. fst (reporting_call c m u d s t w) = Inl (APIErrorThrown e) \<and> api_error e = normalized err"
proof -
  from assms have bad: "settle (wire w (length (sent w)) (instance_request c m u d)) = Inl err"
    unfolding reporting_call_first .
  show ?thesis
    unfolding reporting_call_Inl [OF bad] fst_conv using api_error_formatError by blast
qed

text \<open>
  Claim C1, as amended. Whenever the request of a primary operation meets a transport
  failure (a network error, or a response whose status is not 2xx), the operation raises
  an APIError and nothing else. Its \<^verbatim>\<open>error\<close> field is the response body's \<^verbatim>\<open>error\<close> field
  if the body and that field are truthy, otherwise the body's \<^verbatim>\<open>message\<close> field if the
  body and that field are truthy, otherwise the transport's own message if it is not
  empty, otherwise the text \<^verbatim>\<open>Unknown API error\<close>. The choice is by JavaScript truthiness,
  not by presence: an empty, null, false or zero field is passed over.
\<close>

theorem primary_operation_raises_APIError:
  assumes "primary op"
    and "settle (first_outcome w (snd (perform c op w))) = Inl err"
  shows "\<exists>e. fst (perform c op w) = Inl (APIErrorThrown e)
           \<and> api_error e =
               (let body = (case ax_response err of None \<Rightarrow> JUndefined | Some r \<Rightarrow> resp_data r);
                    fallback = JStr (if ax_message err = [] then ''Unknown API error''
                                     else ax_message err)
                in if truthy body \<and> truthy (get body ''error'') then get body ''error''
                   else if truthy body \<and> truthy (get body ''message'') then get body ''message''
                   else fallback)"
proof (cases op)
  case GetProjectContext
  from assms(2) show ?thesis
    unfolding GetProjectContext perform.simps getProjectContext_def by (rule plain_call_raises)
next
  case GetNextTask
  from assms(2) show ?thesis
    unfolding GetNextTask perform.simps getNextTask_def if_cancel by (rule plain_call_raises)
next
  case (StartTask taskId options)
  from assms(2) show ?thesis
    unfolding StartTask perform.simps startTask_def by (rule reporting_call_raises)
next
  case (UpdateProgress taskId p)
  from assms(2) show ?thesis
    unfolding UpdateProgress perform.simps updateProgress_def by (rule reporting_call_raises)
next
  case (CompleteTask taskId completion)
  from assms(2) show ?thesis
    unfolding CompleteTask perform.simps completeTask_def by (rule reporting_call_raises)
next
  case (CreateDiscussion discussion)
  from assms(2) show ?thesis
    unfolding CreateDiscussion perform.simps createDiscussion_def by (rule plain_call_raises)
next
  case HealthCheck
  from assms(2) show ?thesis
    unfolding HealthCheck perform.simps healthCheck_def by (rule plain_call_raises)
next
  case Connect
  with assms(1) show ?thesis by simp
next
  case Disconnect
  with assms(1) show ?thesis by simp
next
  case GetConnectionStatus
  with assms(1) show ?thesis by simp
qed

text \<open>
  The scenario of the specification: a 401 response with body \<^verbatim>\<open>{"error":"invalid key"}\<close>
  makes \<open>getProjectContext\<close> raise an APIError whose \<^verbatim>\<open>error\<close> is \<^verbatim>\<open>invalid key\<close>.
\<close>

theorem primary_operation_raises_APIError_witness:
  "primary GetProjectContext
   \<and> settle (first_outcome (replying (Reply 401 (JObj [(''error'', JStr ''invalid key'')])))
        (snd (perform example_client GetProjectContext
               (replying (Reply 401 (JObj [(''error'', JStr ''invalid key'')])))))) =
       Inl \<lparr>ax_message = ''Request failed with status code 401'',
            ax_response = Some \<lparr>resp_status = 401,
                                 resp_data = JObj [(''error'', JStr ''invalid key'')]\<rparr>\<rparr>
   \<and> (\<exists>e. fst (perform example_client GetProjectContext
                (replying (Reply 401 (JObj [(''error'', JStr ''invalid key'')])))) =
              Inl (APIErrorThrown e)
          \<and> api_error e = JStr ''invalid key'')"
proof -
  have p: "primary GetProjectContext" by simp
  have s: "settle (first_outcome (replying (Reply 401 (JObj [(''error'', JStr ''invalid key'')])))
        (snd (perform example_client GetProjectContext
               (replying (Reply 401 (JObj [(''error'', JStr ''invalid key'')])))))) =
       Inl \<lparr>ax_message = ''Request failed with status code 401'',
            ax_response = Some \<lparr>resp_status = 401,
                                 resp_data = JObj [(''error'', JStr ''invalid key'')]\<rparr>\<rparr>"
    by (simp add: settle_def decimal_401)
  from primary_operation_raises_APIError [OF p s] p s show ?thesis
    by simp
qed

text \<open>
  Claim C1 as first stated chooses by presence. A 400 response with body
  \<^verbatim>\<open>{"error":"","message":"bad request"}\<close> has an \<^verbatim>\<open>error\<close> field, the empty string, which
  the statement would have raised; the client raises \<^verbatim>\<open>bad request\<close>.
\<close>

theorem error_field_if_present_counterexample:
  "settle (Reply 400 (JObj [(''error'', JStr ''''), (''message'', JStr ''bad request'')])) =
     Inl \<lparr>ax_message = ''Request failed with status code 400'',
          ax_response = Some \<lparr>resp_status = 400,
             resp_data = JObj [(''error'', JStr ''''), (''message'', JStr ''bad request'')]\<rparr>\<rparr>
   \<and> fst (getProjectContext example_client
            (replying (Reply 400 (JObj [(''error'', JStr ''''), (''message'', JStr ''bad request'')])))) =
       Inl (APIErrorThrown \<lparr>api_error = JStr ''bad request'', api_code = JUndefined,
                             api_details = JUndefined,
                             api_timestamp = ''2025-01-01T00:00:00.000Z''\<rparr>)
   \<and> claimed_error \<lparr>ax_message = ''Request failed with status code 400'',
          ax_response = Some \<lparr>resp_status = 400,
             resp_data = JObj [(''error'', JStr ''''), (''message'', JStr ''bad request'')]\<rparr>\<rparr> =
       JStr ''''"
  by (simp add: settle_def decimal_400 getProjectContext_def makeRequest_def axios_request_def
        formatError_def new_Date_toISOString_def js_or_def claimed_error_def present_def Let_def)

subsection \<open>The response envelope\<close>

text \<open>A failed request produces no envelope: \<open>makeRequest\<close> raises an APIError.\<close>

lemma makeRequest_failure_raises:
  assumes "settle (wire w (length (sent w)) (instance_request c m u d)) = Inl err"
  shows "\<exists>e. fst (makeRequest c m u d w) = Inl (APIErrorThrown e)"
  by (simp add: makeRequest_Inl [OF assms])



text \<open>
  The condition on the body cannot be dropped in this model, whose values include
  \<^verbatim>\<open>undefined\<close>: \<open>makeRequest\<close> copies the body into the envelope unchecked.
\<close>

lemma makeRequest_copies_body:
  "fst (makeRequest example_client GET ''/health'' JUndefined (replying (Reply 200 JUndefined))) =
     Inr \<lparr>success = True, data = JUndefined, error = None,
          timestamp = ''2025-01-01T00:00:00.000Z''\<rparr>"
  by (simp add: makeRequest_def axios_request_def settle_def new_Date_toISOString_def Let_def)

subsection \<open>The fixed headers\<close>

lemma sent_getConnectionStatus:
  "sent (snd (getConnectionStatus c w)) =
   sent w @ [instance_request c GET (''/projects/'' @ projectId (config c) @ ''/ai-connections'')
               JUndefined]"
proof -
  have "snd (getConnectionStatus c w) =
        snd (axios_request c GET (''/projects/'' @ projectId (config c) @ ''/ai-connections'')
               JUndefined w)"
    unfolding getConnectionStatus_def Let_def
    by (simp split: prod.splits sum.splits json.splits)
  then show ?thesis by (simp only: sent_axios_request)
qed

lemma sent_perform:
  "\<exists>rs. sent (snd (perform c op w)) = sent w @ rs
      \<and> (\<forall>r\<in>set rs. req_headers r = ax_headers (axios c))"
proof (cases op)
  case GetProjectContext
  show ?thesis
    unfolding GetProjectContext perform.simps getProjectContext_def sent_plain_call
    by (simp add: instance_request_def)
next
  case GetNextTask
  show ?thesis
    unfolding GetNextTask perform.simps getNextTask_def if_cancel sent_plain_call
    by (simp add: instance_request_def)
next
  case (StartTask taskId options)
  show ?thesis
    unfolding StartTask perform.simps startTask_def
    using sent_reporting_call [of c] by (fastforce simp: instance_request_def)
next
  case (UpdateProgress taskId p)
  show ?thesis
    unfolding UpdateProgress perform.simps updateProgress_def
    using sent_reporting_call [of c] by (fastforce simp: instance_request_def)
next
  case (CompleteTask taskId completion)
  show ?thesis
    unfolding CompleteTask perform.simps completeTask_def
    using sent_reporting_call [of c] by (fastforce simp: instance_request_def)
next
  case (CreateDiscussion discussion)
  show ?thesis
    unfolding CreateDiscussion perform.simps createDiscussion_def sent_plain_call
    by (simp add: instance_request_def)
next
  case HealthCheck
  show ?thesis
    unfolding HealthCheck perform.simps healthCheck_def sent_plain_call
    by (simp add: instance_request_def)
next
  case Connect
  show ?thesis
    by (simp add: Connect returning_void_def connect_def case_prod_beta)
       (simp add: heartbeat_def instance_request_def)
next
  case Disconnect
  show ?thesis
    by (simp add: Disconnect returning_void_def disconnect_def case_prod_beta)
       (simp add: heartbeat_def instance_request_def)
next
  case GetConnectionStatus
  show ?thesis
    by (simp add: GetConnectionStatus sent_getConnectionStatus instance_request_def)
qed

lemma sent_lifetime:
  "\<exists>rs. sent (lifetime c ops w) = sent w @ rs
      \<and> (\<forall>r\<in>set rs. req_headers r = ax_headers (axios c))"
proof (induction ops arbitrary: w)
  case Nil
  show ?case by simp
next
  case (Cons op ops)
  obtain rs1 where 1: "sent (snd (perform c op w)) = sent w @ rs1"
      "\<forall>r\<in>set rs1. req_headers r = ax_headers (axios c)"
    using sent_perform by blast
  obtain rs2 where 2: "sent (lifetime c ops (snd (perform c op w))) = sent (snd (perform c op w)) @ rs2"
      "\<forall>r\<in>set rs2. req_headers r = ax_headers (axios c)"
    using Cons.IH by blast
  have "sent (lifetime c (op # ops) w) = sent w @ (rs1 @ rs2)"
    by (simp add: 1 2)
  moreover have "\<forall>r\<in>set (rs1 @ rs2). req_headers r = ax_headers (axios c)"
    using 1 2 by auto
  ultimately show ?case by blast
qed

text \<open>
  Claim C3. Every request a client issues, in any sequence of calls of its methods and
  whatever the world answers, carries the headers the constructor gave the axios
  instance: Authorization with the bearer token of the Config, X-AI-Assistant-ID with
  the assistant id fixed at construction, and Content-Type application/json.
\<close>

theorem fixed_headers:
  "\<forall>r \<in> set (issued w (lifetime (BuildableMCPClient cfg uuid) ops w)).
     req_headers r = ax_headers (axios (BuildableMCPClient cfg uuid))
     \<and> map_of (req_headers r) ''Authorization'' = Some (''Bearer '' @ apiKey cfg)
     \<and> map_of (req_headers r) ''X-AI-Assistant-ID'' =
         Some (assistantId (BuildableMCPClient cfg uuid))
     \<and> map_of (req_headers r) ''Content-Type'' = Some ''application/json''"
proof -
  obtain rs where rs: "sent (lifetime (BuildableMCPClient cfg uuid) ops w) = sent w @ rs"
      "\<forall>r\<in>set rs. req_headers r = ax_headers (axios (BuildableMCPClient cfg uuid))"
    using sent_lifetime by blast
  have "issued w (lifetime (BuildableMCPClient cfg uuid) ops w) = rs"
    by (simp add: issued_def rs(1))
  with rs(2) show ?thesis
    by (simp add: BuildableMCPClient_def Let_def)
qed

text \<open>A health check followed by a disconnect.\<close>

theorem fixed_headers_witness:
  "instance_request example_client GET ''/health'' JUndefined
     \<in> set (issued (replying (Reply 200 (JObj [(''status'', JStr ''ok'')])))
              (lifetime example_client [HealthCheck, Disconnect]
                 (replying (Reply 200 (JObj [(''status'', JStr ''ok'')])))))
   \<and> map_of (req_headers (instance_request example_client GET ''/health'' JUndefined))
        ''Authorization'' = Some ''Bearer k''
   \<and> map_of (req_headers (instance_request example_client GET ''/health'' JUndefined))
        ''X-AI-Assistant-ID'' = Some ''ai_0f8fad5b''
   \<and> map_of (req_headers (instance_request example_client GET ''/health'' JUndefined))
        ''Content-Type'' = Some ''application/json''"
proof -
  let ?w = "replying (Reply 200 (JObj [(''status'', JStr ''ok'')]))"
  have "sent (lifetime example_client [HealthCheck, Disconnect] ?w) =
        sent (snd (healthCheck example_client ?w))
        @ [heartbeat example_client ''disconnected'' JUndefined
             (clock (snd (healthCheck example_client ?w)) (ticks (snd (healthCheck example_client ?w))))]"
    by (simp add: snd_returning_void sent_disconnect)
  also have "sent (snd (healthCheck example_client ?w)) =
        sent ?w @ [instance_request example_client GET ''/health'' JUndefined]"
    unfolding healthCheck_def by (rule sent_plain_call)
  finally have m: "instance_request example_client GET ''/health'' JUndefined
     \<in> set (issued ?w (lifetime example_client [HealthCheck, Disconnect] ?w))"
    by (simp add: issued_def)
  have a: "assistantId (BuildableMCPClient example_config ''0f8fad5b-d9cb-469f-a165-70867728950e'') =
      ''ai_0f8fad5b''" "apiKey example_config = ''k''"
    by (simp_all add: BuildableMCPClient_def example_config_def Let_def)
  from fixed_headers [of "replying (Reply 200 (JObj [(''status'', JStr ''ok'')]))"
        example_config "''0f8fad5b-d9cb-469f-a165-70867728950e''" "[HealthCheck, Disconnect]"]
    m a
  show ?thesis
    unfolding example_client_def [symmetric] by auto
qed

subsection \<open>Validation of the progress percentage\<close>

lemma update_progress_schema_accepts:
  "shape_accepts update_progress_schema args =
     ((\<exists>kvs. args = JObj kvs)
      \<and> zod_accepts ZString (get args ''task_id'')
      \<and> zod_accepts (ZNumber (Some 0) (Some 100)) (get args ''progress'')
      \<and> zod_accepts ZString (get args ''status_update'')
      \<and> zod_accepts (ZOptional (ZArray ZString)) (get args ''completed_steps'')
      \<and> zod_accepts (ZOptional ZString) (get args ''current_step'')
      \<and> zod_accepts (ZOptional (ZArray ZString)) (get args ''challenges'')
      \<and> zod_accepts (ZOptional (ZArray ZString)) (get args ''files_modified'')
      \<and> zod_accepts (ZOptional (ZNumber None None)) (get args ''time_spent'')
      \<and> zod_accepts (ZOptional ZString) (get args ''notes''))"
  by (cases args) (simp_all add: shape_accepts_def update_progress_schema_def
        del: get.simps zod_accepts.simps)

lemma call_update_progress:
  "call_tool srv ''update_progress'' args w =
     (if shape_accepts update_progress_schema args then update_progress_handler srv args w
      else (Inl (InvalidParams ''update_progress''), w))"
  by (simp add: call_tool_def setupTools_def)

text \<open>
  Claim C4. An invocation of \<^verbatim>\<open>update_progress\<close> whose \<^verbatim>\<open>progress\<close> argument is a number
  below 0 or above 100 is answered with the invalid-parameters error and leaves the world
  as it was: no method of the client runs and no request is sent.
\<close>

theorem update_progress_rejects_out_of_range:
  assumes "get args ''progress'' = JNum n"
    and "num_less n 0 \<or> num_greater n 100"
  shows "call_tool srv ''update_progress'' args w = (Inl (InvalidParams ''update_progress''), w)"
proof -
  from assms have "\<not> zod_accepts (ZNumber (Some 0) (Some 100)) (get args ''progress'')"
    by auto
  then have "\<not> shape_accepts update_progress_schema args"
    by (simp only: update_progress_schema_accepts simp_thms)
  then show ?thesis
    by (simp only: call_update_progress if_False)
qed

text \<open>The two values the specification names, 150 and -1.\<close>

theorem update_progress_rejects_out_of_range_witness:
  "get (JObj [(''task_id'', JStr ''t1''), (''progress'', JNum (Finite 150)),
              (''status_update'', JStr ''halfway'')]) ''progress'' = JNum (Finite 150)
   \<and> (num_less (Finite 150) 0 \<or> num_greater (Finite 150) 100)
   \<and> call_tool example_server ''update_progress''
        (JObj [(''task_id'', JStr ''t1''), (''progress'', JNum (Finite 150)),
               (''status_update'', JStr ''halfway'')])
        (replying (Reply 200 (JObj []))) =
       (Inl (InvalidParams ''update_progress''), replying (Reply 200 (JObj [])))
   \<and> get (JObj [(''task_id'', JStr ''t1''), (''progress'', JNum (Finite (- 1))),
              (''status_update'', JStr ''halfway'')]) ''progress'' = JNum (Finite (- 1))
   \<and> (num_less (Finite (- 1)) 0 \<or> num_greater (Finite (- 1)) 100)
   \<and> call_tool example_server ''update_progress''
        (JObj [(''task_id'', JStr ''t1''), (''progress'', JNum (Finite (- 1))),
               (''status_update'', JStr ''halfway'')])
        (replying (Reply 200 (JObj []))) =
       (Inl (InvalidParams ''update_progress''), replying (Reply 200 (JObj [])))
   \<and> sent (replying (Reply 200 (JObj []))) = []"
proof -
  have g1: "get (JObj [(''task_id'', JStr ''t1''), (''progress'', JNum (Finite 150)),
              (''status_update'', JStr ''halfway'')]) ''progress'' = JNum (Finite 150)"
    by simp
  have r1: "num_less (Finite 150) 0 \<or> num_greater (Finite 150) 100" by simp
  have g2: "get (JObj [(''task_id'', JStr ''t1''), (''progress'', JNum (Finite (- 1))),
              (''status_update'', JStr ''halfway'')]) ''progress'' = JNum (Finite (- 1))"
    by simp
  have r2: "num_less (Finite (- 1)) 0 \<or> num_greater (Finite (- 1)) 100" by simp
  from update_progress_rejects_out_of_range [OF g1 r1]
       update_progress_rejects_out_of_range [OF g2 r2] g1 r1 g2 r2
  show ?thesis by simp
qed

text \<open>For comparison, an invocation with progress 40 is accepted and reaches the backend.\<close>

lemma update_progress_in_range_is_sent:
  "\<exists>r hb. issued (replying (Reply 200 (JObj [])))
      (snd (call_tool example_server ''update_progress''
              (JObj [(''task_id'', JStr ''t1''), (''progress'', JNum (Finite 40)),
                     (''status_update'', JStr ''halfway'')])
              (replying (Reply 200 (JObj []))))) = [r, hb]
     \<and> req_url r = ''/tasks/t1/progress''
     \<and> get (req_data r) ''completion_percentage'' = JNum (Finite 40)
     \<and> get (req_data r) ''status_update'' = JUndefined"
proof -
  let ?args = "JObj [(''task_id'', JStr ''t1''), (''progress'', JNum (Finite 40)),
                     (''status_update'', JStr ''halfway'')]"
  let ?w = "replying (Reply 200 (JObj []))"
  have acc: "shape_accepts update_progress_schema ?args"
    by (simp add: update_progress_schema_accepts)
  have ok: "\<And>m u d. settle (wire ?w (length (sent ?w)) (instance_request example_client m u d)) =
      Inr \<lparr>resp_status = 200, resp_data = JObj []\<rparr>"
    by (simp add: settle_def)
  have 1: "call_tool example_server ''update_progress'' ?args ?w =
        update_progress_handler example_server ?args ?w"
    using acc by (simp only: call_update_progress if_True)
  have 2: "snd (update_progress_handler example_server ?args ?w) =
      snd (updateProgress example_client ''t1''
        \<lparr>pu_progress = JNum (Finite 40), pu_status_update = JStr ''halfway'',
         pu_completed_steps = JUndefined, pu_current_step = JUndefined,
         pu_challenges = JUndefined, pu_time_spent = JUndefined,
         pu_files_modified = JUndefined, pu_notes = JUndefined\<rparr> ?w)"
    by (simp add: update_progress_handler_def example_server_def snd_as_text)
  show ?thesis
    unfolding 1 2 updateProgress_def reporting_call_Inr [OF ok]
    by (simp add: issued_def instance_request_def heartbeat_def)
qed

subsection \<open>The default urgency\<close>

lemma createDiscussion_request:
  "sent (snd (createDiscussion c discussion w)) =
     sent w @ [instance_request c POST (''/projects/'' @ projectId (config c) @ ''/discuss'')
             (JObj [(''type'', JStr ''question''),
                    (''title'', cdr_topic discussion),
                    (''message'', cdr_message discussion),
                    (''context'',
                       JObj [(''task_id'', context_field discussion dc_current_task_id),
                             (''relevant_files'', context_field discussion dc_related_files),
                             (''specific_challenge'', context_field discussion dc_specific_challenge),
                             (''urgency'',
                                js_or (context_field discussion dc_urgency) (JStr ''medium''))]),
                    (''urgency'', js_or (context_field discussion dc_urgency) (JStr ''medium'')),
                    (''requires_human_response'', JBool True),
                    (''created_by'', JStr (assistantId c))])]"
  unfolding createDiscussion_def by (rule sent_plain_call)

text \<open>
  Claim C5. When the caller of \<open>createDiscussion\<close> supplies no urgency (no context, or a
  context without urgency), the one request sent is a POST to the project's
  \<^verbatim>\<open>/discuss\<close> path whose body has \<^verbatim>\<open>medium\<close> both as top-level \<^verbatim>\<open>urgency\<close> and as
  \<^verbatim>\<open>context.urgency\<close>.
\<close>

theorem createDiscussion_default_urgency:
  assumes "\<not> present (context_field discussion dc_urgency)"
  shows "\<exists>r. issued w (snd (createDiscussion c discussion w)) = [r]
          \<and> req_method r = POST
          \<and> req_url r = ''/projects/'' @ projectId (config c) @ ''/discuss''
          \<and> get (req_data r) ''urgency'' = JStr ''medium''
          \<and> get (get (req_data r) ''context'') ''urgency'' = JStr ''medium''"
  using assms
  by (simp add: createDiscussion_request issued_def instance_request_def present_def js_or_def)

text \<open>A discussion without context.\<close>

theorem createDiscussion_default_urgency_witness:
  "\<not> present (context_field
        \<lparr>cdr_topic = JStr ''Which database?'', cdr_message = JStr ''Postgres or SQLite?'',
         cdr_context = None\<rparr> dc_urgency)
   \<and> (\<exists>r. issued (replying (Reply 200 (JObj [])))
             (snd (createDiscussion example_client
                     \<lparr>cdr_topic = JStr ''Which database?'',
                      cdr_message = JStr ''Postgres or SQLite?'', cdr_context = None\<rparr>
                     (replying (Reply 200 (JObj []))))) = [r]
          \<and> req_method r = POST
          \<and> req_url r = ''/projects/p/discuss''
          \<and> get (req_data r) ''urgency'' = JStr ''medium''
          \<and> get (get (req_data r) ''context'') ''urgency'' = JStr ''medium'')"
proof -
  have h: "\<not> present (context_field
        \<lparr>cdr_topic = JStr ''Which database?'', cdr_message = JStr ''Postgres or SQLite?'',
         cdr_context = None\<rparr> dc_urgency)"
    by (simp add: context_field_def present_def)
  have p: "projectId (config example_client) = ''p''"
    by (simp add: example_client_def BuildableMCPClient_def example_config_def Let_def)
  from createDiscussion_default_urgency [OF h, of "replying (Reply 200 (JObj []))" example_client] h p
  show ?thesis by simp
qed

text \<open>The same through the \<^verbatim>\<open>create_discussion\<close> tool, for accepted arguments without
  urgency.\<close>

lemma create_discussion_tool_default_urgency:
  assumes "srv_client srv = Some c"
    and "shape_accepts create_discussion_schema args"
    and "get args ''urgency'' = JUndefined"
  shows "\<exists>r. issued w (snd (call_tool srv ''create_discussion'' args w)) = [r]
          \<and> get (req_data r) ''title'' = get args ''title''
          \<and> get (req_data r) ''message'' = get args ''content''
          \<and> get (req_data r) ''urgency'' = JStr ''medium''
          \<and> get (get (req_data r) ''context'') ''urgency'' = JStr ''medium''"
proof -
  have "call_tool srv ''create_discussion'' args w = create_discussion_handler srv args w"
    using assms(2) by (simp add: call_tool_def setupTools_def)
  then show ?thesis
    using assms(1,3)
    by (simp add: create_discussion_handler_def snd_as_text createDiscussion_request issued_def
          instance_request_def context_field_def js_or_def del: get.simps)
       simp
qed

subsection \<open>Disconnecting\<close>

text \<open>
  Claim C6. \<open>disconnect\<close> returns normally in every world, that is for every outcome of
  the one connection-status request it sends, which reports the status
  \<^verbatim>\<open>disconnected\<close>.
\<close>

theorem disconnect_never_raises:
  "fst (disconnect c w) = Inr ()
   \<and> (\<exists>hb. issued w (snd (disconnect c w)) = [hb]
          \<and> req_method hb = POST \<and> req_url hb = ''/internal/ai-connections''
          \<and> get (req_data hb) ''status'' = JStr ''disconnected'')"
  by (simp add: disconnect_def case_prod_beta issued_def)
     (simp add: heartbeat_def instance_request_def)

text \<open>An instance where the connection-status request meets a network failure.\<close>

theorem disconnect_never_raises_witness:
  "wire (replying (NetworkFailure ''connect ECONNREFUSED'')) 0
     (heartbeat example_client ''disconnected'' JUndefined ''2025-01-01T00:00:00.000Z'') =
     NetworkFailure ''connect ECONNREFUSED''
   \<and> fst (disconnect example_client (replying (NetworkFailure ''connect ECONNREFUSED''))) = Inr ()
   \<and> issued (replying (NetworkFailure ''connect ECONNREFUSED''))
        (snd (disconnect example_client (replying (NetworkFailure ''connect ECONNREFUSED'')))) =
       [heartbeat example_client ''disconnected'' JUndefined ''2025-01-01T00:00:00.000Z'']"
  using disconnect_never_raises [of example_client "replying (NetworkFailure ''connect ECONNREFUSED'')"]
  by (simp add: disconnect_def case_prod_beta issued_def)

subsection \<open>Starting a task\<close>

text \<open>
  Claim C7. When the request of \<open>startTask\<close> gets a 2xx response, the call returns the body
  of that response and exactly one more request is sent: a POST to
  \<^verbatim>\<open>/internal/ai-connections\<close> with status \<^verbatim>\<open>working\<close> and \<^verbatim>\<open>current_task_id\<close> the task id.
  Nothing is assumed about the outcome of that second request, so its failure changes
  neither the result nor whether the call returns.
\<close>

theorem startTask_heartbeat:
  assumes "first_outcome w (snd (startTask c taskId options w)) = Reply st body"
    and "200 \<le> st" and "st < 300"
  shows "fst (startTask c taskId options w) = Inr body
    \<and> (\<exists>r hb. issued w (snd (startTask c taskId options w)) = [r, hb]
           \<and> req_method r = POST \<and> req_url r = ''/tasks/'' @ taskId @ ''/start''
           \<and> req_method hb = POST \<and> req_url hb = ''/internal/ai-connections''
           \<and> get (req_data hb) ''status'' = JStr ''working''
           \<and> get (req_data hb) ''current_task_id'' = JStr taskId)"
proof -
  from assms have ok: "settle (wire w (length (sent w))
      (instance_request c POST (''/tasks/'' @ taskId @ ''/start'')
         (JObj [(''ai_assistant_id'', JStr (assistantId c)),
                (''estimated_time_minutes'', sto_estimated_duration options),
                (''notes'', sto_notes options),
                (''approach'', sto_approach options)]))) =
      Inr \<lparr>resp_status = st, resp_data = body\<rparr>"
    unfolding startTask_def reporting_call_first by (simp only: settle_Reply_2xx)
  show ?thesis
    unfolding startTask_def reporting_call_Inr [OF ok]
    by (simp add: issued_def heartbeat_def instance_request_def)
qed

text \<open>The scenario of the specification, with the connection-status request failing.\<close>

theorem startTask_heartbeat_witness:
  "first_outcome (scripted [Reply 200 (JObj [(''success'', JBool True), (''task_id'', JStr ''t1'')])]
                    (NetworkFailure ''connect ECONNREFUSED''))
     (snd (startTask example_client ''t1''
             \<lparr>sto_approach = JStr ''tdd'', sto_estimated_duration = JUndefined,
              sto_notes = JUndefined\<rparr>
             (scripted [Reply 200 (JObj [(''success'', JBool True), (''task_id'', JStr ''t1'')])]
                (NetworkFailure ''connect ECONNREFUSED'')))) =
     Reply 200 (JObj [(''success'', JBool True), (''task_id'', JStr ''t1'')])
   \<and> (200::nat) \<le> 200 \<and> (200::nat) < 300
   \<and> wire (scripted [Reply 200 (JObj [(''success'', JBool True), (''task_id'', JStr ''t1'')])]
                (NetworkFailure ''connect ECONNREFUSED'')) 1
        (heartbeat example_client ''working'' (JStr ''t1'') ''2025-01-01T00:00:00.000Z'') =
       NetworkFailure ''connect ECONNREFUSED''
   \<and> fst (startTask example_client ''t1''
             \<lparr>sto_approach = JStr ''tdd'', sto_estimated_duration = JUndefined,
              sto_notes = JUndefined\<rparr>
             (scripted [Reply 200 (JObj [(''success'', JBool True), (''task_id'', JStr ''t1'')])]
                (NetworkFailure ''connect ECONNREFUSED''))) =
       Inr (JObj [(''success'', JBool True), (''task_id'', JStr ''t1'')])
   \<and> (\<exists>r. issued (scripted [Reply 200 (JObj [(''success'', JBool True), (''task_id'', JStr ''t1'')])]
                (NetworkFailure ''connect ECONNREFUSED''))
          (snd (startTask example_client ''t1''
             \<lparr>sto_approach = JStr ''tdd'', sto_estimated_duration = JUndefined,
              sto_notes = JUndefined\<rparr>
             (scripted [Reply 200 (JObj [(''success'', JBool True), (''task_id'', JStr ''t1'')])]
                (NetworkFailure ''connect ECONNREFUSED'')))) =
          [r, heartbeat example_client ''working'' (JStr ''t1'') ''2025-01-01T00:00:00.000Z''])"
proof -
  let ?w = "scripted [Reply 200 (JObj [(''success'', JBool True), (''task_id'', JStr ''t1'')])]
                (NetworkFailure ''connect ECONNREFUSED'')"
  let ?o = "\<lparr>sto_approach = JStr ''tdd'', sto_estimated_duration = JUndefined,
              sto_notes = JUndefined\<rparr>"
  have f: "first_outcome ?w (snd (startTask example_client ''t1'' ?o ?w)) =
     Reply 200 (JObj [(''success'', JBool True), (''task_id'', JStr ''t1'')])"
    unfolding startTask_def reporting_call_first by (simp add: wire_scripted)
  have ok: "settle (wire ?w (length (sent ?w))
      (instance_request example_client POST (''/tasks/'' @ ''t1'' @ ''/start'')
         (JObj [(''ai_assistant_id'', JStr (assistantId example_client)),
                (''estimated_time_minutes'', sto_estimated_duration ?o),
                (''notes'', sto_notes ?o),
                (''approach'', sto_approach ?o)]))) =
      Inr \<lparr>resp_status = 200,
           resp_data = JObj [(''success'', JBool True), (''task_id'', JStr ''t1'')]\<rparr>"
    by (simp add: wire_scripted settle_def)
  have i: "\<exists>r. issued ?w (snd (startTask example_client ''t1'' ?o ?w)) =
          [r, heartbeat example_client ''working'' (JStr ''t1'') ''2025-01-01T00:00:00.000Z'']"
    unfolding startTask_def reporting_call_Inr [OF ok]
    by (simp add: issued_def)
  have l: "(200::nat) \<le> 200" and u: "(200::nat) < 300" by simp_all
  from startTask_heartbeat [OF f l u] f i show ?thesis
    by (simp add: wire_scripted)
qed

subsection \<open>The progress body\<close>

text \<open>
  Claim C8. The first request of \<open>updateProgress\<close> is a POST to
  \<^verbatim>\<open>/tasks/{id}/progress\<close> whose body has exactly the eight fields of the upstream
  interface: \<^verbatim>\<open>completion_percentage\<close> is the caller's \<^verbatim>\<open>progress\<close>, \<^verbatim>\<open>files_created\<close> and
  \<^verbatim>\<open>files_modified\<close> are both the caller's \<^verbatim>\<open>files_modified\<close>, \<^verbatim>\<open>blockers\<close> is the caller's
  \<^verbatim>\<open>challenges\<close>, \<^verbatim>\<open>time_spent_minutes\<close> is the caller's \<^verbatim>\<open>time_spent\<close>, and \<^verbatim>\<open>notes\<close>,
  \<^verbatim>\<open>current_step\<close> and \<^verbatim>\<open>completed_steps\<close> keep their names.
\<close>

theorem updateProgress_body:
  "\<exists>r rest fields. issued w (snd (updateProgress c taskId p w)) = r # rest
      \<and> req_method r = POST
      \<and> req_url r = ''/tasks/'' @ taskId @ ''/progress''
      \<and> req_data r = JObj fields
      \<and> map fst fields = [''completion_percentage'', ''files_created'', ''files_modified'',
            ''notes'', ''blockers'', ''time_spent_minutes'', ''current_step'', ''completed_steps'']
      \<and> get (req_data r) ''completion_percentage'' = pu_progress p
      \<and> get (req_data r) ''files_created'' = pu_files_modified p
      \<and> get (req_data r) ''files_modified'' = pu_files_modified p
      \<and> get (req_data r) ''notes'' = pu_notes p
      \<and> get (req_data r) ''blockers'' = pu_challenges p
      \<and> get (req_data r) ''time_spent_minutes'' = pu_time_spent p
      \<and> get (req_data r) ''current_step'' = pu_current_step p
      \<and> get (req_data r) ''completed_steps'' = pu_completed_steps p"
proof -
  obtain rest where "sent (snd (updateProgress c taskId p w)) =
      sent w @ instance_request c POST (''/tasks/'' @ taskId @ ''/progress'')
             (JObj [(''completion_percentage'', pu_progress p),
                    (''files_created'', pu_files_modified p),
                    (''files_modified'', pu_files_modified p),
                    (''notes'', pu_notes p),
                    (''blockers'', pu_challenges p),
                    (''time_spent_minutes'', pu_time_spent p),
                    (''current_step'', pu_current_step p),
                    (''completed_steps'', pu_completed_steps p)]) # rest"
    unfolding updateProgress_def using sent_reporting_call by blast
  then show ?thesis
    by (simp add: issued_def instance_request_def)
qed

text \<open>A concrete update; its \<^verbatim>\<open>status_update\<close> is not among the fields sent.\<close>

theorem updateProgress_body_witness:
  "\<exists>r rest. issued (replying (Reply 200 (JObj [])))
       (snd (updateProgress example_client ''t1''
               \<lparr>pu_progress = JNum (Finite 40), pu_status_update = JStr ''halfway'',
                pu_completed_steps = JUndefined, pu_current_step = JUndefined,
                pu_challenges = JArr [JStr ''flaky test''], pu_time_spent = JNum (Finite 25),
                pu_files_modified = JArr [JStr ''a.ts''], pu_notes = JUndefined\<rparr>
               (replying (Reply 200 (JObj []))))) = r # rest
      \<and> req_url r = ''/tasks/t1/progress''
      \<and> get (req_data r) ''completion_percentage'' = JNum (Finite 40)
      \<and> get (req_data r) ''files_created'' = JArr [JStr ''a.ts'']
      \<and> get (req_data r) ''files_modified'' = JArr [JStr ''a.ts'']
      \<and> get (req_data r) ''blockers'' = JArr [JStr ''flaky test'']
      \<and> get (req_data r) ''time_spent_minutes'' = JNum (Finite 25)
      \<and> get (req_data r) ''status_update'' = JUndefined"
proof -
  from updateProgress_body [of "replying (Reply 200 (JObj []))" example_client "''t1''"
      "\<lparr>pu_progress = JNum (Finite 40), pu_status_update = JStr ''halfway'',
                pu_completed_steps = JUndefined, pu_current_step = JUndefined,
                pu_challenges = JArr [JStr ''flaky test''], pu_time_spent = JNum (Finite 25),
                pu_files_modified = JArr [JStr ''a.ts''], pu_notes = JUndefined\<rparr>"]
  obtain r rest fields where
    "issued (replying (Reply 200 (JObj [])))
       (snd (updateProgress example_client ''t1''
               \<lparr>pu_progress = JNum (Finite 40), pu_status_update = JStr ''halfway'',
                pu_completed_steps = JUndefined, pu_current_step = JUndefined,
                pu_challenges = JArr [JStr ''flaky test''], pu_time_spent = JNum (Finite 25),
                pu_files_modified = JArr [JStr ''a.ts''], pu_notes = JUndefined\<rparr>
               (replying (Reply 200 (JObj []))))) = r # rest"
    "req_url r = ''/tasks/'' @ ''t1'' @ ''/progress''"
    "req_data r = JObj fields"
    "map fst fields = [''completion_percentage'', ''files_created'', ''files_modified'',
            ''notes'', ''blockers'', ''time_spent_minutes'', ''current_step'', ''completed_steps'']"
    "get (req_data r) ''completion_percentage'' = JNum (Finite 40)"
    "get (req_data r) ''files_created'' = JArr [JStr ''a.ts'']"
    "get (req_data r) ''files_modified'' = JArr [JStr ''a.ts'']"
    "get (req_data r) ''blockers'' = JArr [JStr ''flaky test'']"
    "get (req_data r) ''time_spent_minutes'' = JNum (Finite 25)"
    by auto
  moreover from this(3,4) have "get (req_data r) ''status_update'' = JUndefined"
    by (auto simp: map_of_eq_None_iff split: option.splits)
  ultimately show ?thesis by auto
qed

subsection \<open>No task available\<close>

text \<open>
  Claim C9. When the request of \<open>getNextTask\<close> gets a 2xx response whose body has no
  \<^verbatim>\<open>task\<close> field, the call returns that body, and so a result without \<^verbatim>\<open>task\<close> field; it
  does not raise.
\<close>

theorem getNextTask_no_task:
  assumes "first_outcome w (snd (getNextTask c w)) = Reply st body"
    and "200 \<le> st" and "st < 300"
    and "\<not> present (get body ''task'')"
  shows "\<exists>result. fst (getNextTask c w) = Inr result \<and> result = body
           \<and> \<not> present (get result ''task'')"
proof -
  from assms(1-3) have ok: "settle (wire w (length (sent w))
      (instance_request c GET (''/projects/'' @ projectId (config c) @ ''/next-task'') JUndefined)) =
      Inr \<lparr>resp_status = st, resp_data = body\<rparr>"
    unfolding getNextTask_def if_cancel plain_call_first by (simp only: settle_Reply_2xx)
  show ?thesis
    unfolding getNextTask_def if_cancel plain_call_Inr [OF ok]
    using assms(4) by simp
qed

text \<open>A backend that answers that no task is available.\<close>

theorem getNextTask_no_task_witness:
  "first_outcome (replying (Reply 200 (JObj [(''success'', JBool True),
                                             (''message'', JStr ''No tasks available'')])))
     (snd (getNextTask example_client
             (replying (Reply 200 (JObj [(''success'', JBool True),
                                         (''message'', JStr ''No tasks available'')]))))) =
     Reply 200 (JObj [(''success'', JBool True), (''message'', JStr ''No tasks available'')])
   \<and> (200::nat) \<le> 200 \<and> (200::nat) < 300
   \<and> \<not> present (get (JObj [(''success'', JBool True),
                            (''message'', JStr ''No tasks available'')]) ''task'')
   \<and> fst (getNextTask example_client
            (replying (Reply 200 (JObj [(''success'', JBool True),
                                        (''message'', JStr ''No tasks available'')])))) =
       Inr (JObj [(''success'', JBool True), (''message'', JStr ''No tasks available'')])"
proof -
  have f: "first_outcome (replying (Reply 200 (JObj [(''success'', JBool True),
                                             (''message'', JStr ''No tasks available'')])))
     (snd (getNextTask example_client
             (replying (Reply 200 (JObj [(''success'', JBool True),
                                         (''message'', JStr ''No tasks available'')]))))) =
     Reply 200 (JObj [(''success'', JBool True), (''message'', JStr ''No tasks available'')])"
    by simp
  have l: "(200::nat) \<le> 200" and u: "(200::nat) < 300" by simp_all
  have a: "\<not> present (get (JObj [(''success'', JBool True),
                            (''message'', JStr ''No tasks available'')]) ''task'')"
    by (simp add: present_def)
  from getNextTask_no_task [OF f l u a] f a show ?thesis
    by simp
qed

subsection \<open>The status update is not transmitted\<close>

lemma updateProgress_ignores_status_update:
  "updateProgress c taskId (p\<lparr>pu_status_update := s\<rparr>) w = updateProgress c taskId p w"
  by (simp add: updateProgress_def)

text \<open>
  Claim C10. Two invocations of \<^verbatim>\<open>update_progress\<close> whose arguments differ only in the
  string given as \<^verbatim>\<open>status_update\<close> have the same result and leave the same world, hence
  send the same requests with the same bodies.
\<close>

theorem status_update_not_transmitted:
  assumes "\<forall>k. k \<noteq> ''status_update'' \<longrightarrow> get args k = get args' k"
    and "get args ''status_update'' = JStr s"
    and "get args' ''status_update'' = JStr s'"
  shows "call_tool srv ''update_progress'' args w = call_tool srv ''update_progress'' args' w"
proof -
  from assms(2) have obj: "\<exists>kvs. args = JObj kvs" by (cases args) auto
  from assms(3) have obj': "\<exists>kvs. args' = JObj kvs" by (cases args') auto
  have same: "get args ''task_id'' = get args' ''task_id''"
    "get args ''progress'' = get args' ''progress''"
    "get args ''completed_steps'' = get args' ''completed_steps''"
    "get args ''current_step'' = get args' ''current_step''"
    "get args ''challenges'' = get args' ''challenges''"
    "get args ''files_modified'' = get args' ''files_modified''"
    "get args ''time_spent'' = get args' ''time_spent''"
    "get args ''notes'' = get args' ''notes''"
    using assms(1) by simp_all
  have str: "zod_accepts ZString (get args ''status_update'')"
    "zod_accepts ZString (get args' ''status_update'')"
    by (simp_all add: assms(2,3))
  have "shape_accepts update_progress_schema args = shape_accepts update_progress_schema args'"
    by (simp only: update_progress_schema_accepts same obj obj' str)
  moreover have "update_progress_handler srv args w = update_progress_handler srv args' w"
    unfolding update_progress_handler_def updateProgress_def
    by (simp only: ProgressUpdate.simps same)
  ultimately show ?thesis
    by (simp only: call_update_progress)
qed

text \<open>Two invocations that differ in the status update only.\<close>

theorem status_update_not_transmitted_witness:
  "(\<forall>k. k = ''status_update''
        \<or> get (JObj [(''task_id'', JStr ''t1''), (''progress'', JNum (Finite 40)),
                     (''status_update'', JStr ''halfway'')]) k =
          get (JObj [(''task_id'', JStr ''t1''), (''progress'', JNum (Finite 40)),
                     (''status_update'', JStr ''stuck'')]) k)
   \<and> get (JObj [(''task_id'', JStr ''t1''), (''progress'', JNum (Finite 40)),
                (''status_update'', JStr ''halfway'')]) ''status_update'' = JStr ''halfway''
   \<and> get (JObj [(''task_id'', JStr ''t1''), (''progress'', JNum (Finite 40)),
                (''status_update'', JStr ''stuck'')]) ''status_update'' = JStr ''stuck''
   \<and> call_tool example_server ''update_progress''
        (JObj [(''task_id'', JStr ''t1''), (''progress'', JNum (Finite 40)),
               (''status_update'', JStr ''halfway'')]) (replying (Reply 200 (JObj []))) =
     call_tool example_server ''update_progress''
        (JObj [(''task_id'', JStr ''t1''), (''progress'', JNum (Finite 40)),
               (''status_update'', JStr ''stuck'')]) (replying (Reply 200 (JObj [])))"
proof -
  have a: "\<forall>k. k \<noteq> ''status_update'' \<longrightarrow>
          get (JObj [(''task_id'', JStr ''t1''), (''progress'', JNum (Finite 40)),
                     (''status_update'', JStr ''halfway'')]) k =
          get (JObj [(''task_id'', JStr ''t1''), (''progress'', JNum (Finite 40)),
                     (''status_update'', JStr ''stuck'')]) k"
    by simp
  have b: "get (JObj [(''task_id'', JStr ''t1''), (''progress'', JNum (Finite 40)),
                (''status_update'', JStr ''halfway'')]) ''status_update'' = JStr ''halfway''"
    by simp
  have c: "get (JObj [(''task_id'', JStr ''t1''), (''progress'', JNum (Finite 40)),
                (''status_update'', JStr ''stuck'')]) ''status_update'' = JStr ''stuck''"
    by simp
  from status_update_not_transmitted [OF a b c] a b c show ?thesis
    by blast
qed

end
